theory Spec2Isabelle
  imports Complex_Main
begin

unbundle bit_operations_syntax

section \<open>Python values shared by the models\<close>

text \<open>
  The exceptions of the Python runtime that the modelled functions can raise.
  A function that can raise returns \<open>py_error + 'a\<close>, with \<open>Inl\<close> the raised error.
\<close>

datatype py_error = ValueError | NameError | AttributeError | OtherError

section \<open>switch.py: the bit-mask helpers\<close>

text \<open>
  \<^verbatim>\<open>
  def is_bit_set(mask: int, bit: int) -> bool:
      return bool(mask & (1 << bit))
  def set_bit(mask: int, bit: int) -> int:
      return mask | (1 << bit)
  def clear_bit(mask: int, bit: int) -> int:
      return mask & ~(1 << bit)
  \<close>
  Python integers are unbounded, so masks are \<open>int\<close>. The shift \<open>1 << bit\<close> raises
  ValueError for a negative shift count.
\<close>

definition shl_one :: "int \<Rightarrow> py_error + int" where
  "shl_one k = (if k < 0 then Inl ValueError else Inr (push_bit (nat k) 1))"

definition is_bit_set :: "int \<Rightarrow> int \<Rightarrow> py_error + bool" where
  "is_bit_set m k =
     (case shl_one k of Inl e \<Rightarrow> Inl e | Inr b \<Rightarrow> Inr ((m AND b) \<noteq> 0))"

definition set_bit_py :: "int \<Rightarrow> int \<Rightarrow> py_error + int" where
  "set_bit_py m k =
     (case shl_one k of Inl e \<Rightarrow> Inl e | Inr b \<Rightarrow> Inr (m OR b))"

definition clear_bit :: "int \<Rightarrow> int \<Rightarrow> py_error + int" where
  "clear_bit m k =
     (case shl_one k of Inl e \<Rightarrow> Inl e | Inr b \<Rightarrow> Inr (m AND NOT b))"

section \<open>sensor.py: the data read by the sensors\<close>

text \<open>
  The sensors read a few attributes of the snapshot held by the coordinator. Measured
  values are Python floats; they are modelled as exact rationals, so rounding error of
  the floating-point unit is outside the model. Optional attributes
  (\<^verbatim>\<open>getattr(channel, "temp", None)\<close>) are \<open>option\<close> values. The record fields carry
  a prefix so that the source's local names (\<open>temp\<close>, \<open>channel\<close>) stay free for variables:
  \<open>ch_number\<close>, \<open>ch_temp\<close>, \<open>ch_max\<close> are \<open>channel.number\<close>, \<open>channel.temp\<close>,
  \<open>channel.max\<close>; \<open>pm_id\<close>, \<open>pm_channel\<close> are \<open>pitmaster.id\<close>, \<open>pitmaster.channel\<close>.
\<close>

record channel =
  ch_number :: int
  ch_temp :: "rat option"
  ch_max :: "rat option"

record pitmaster =
  pm_id :: int
  pm_channel :: "int option"

record system =
  sys_online :: int

record wlanthermo_data =
  channels :: "channel list"
  pitmasters :: "pitmaster list"
  system :: "system option"

text \<open>
  The coordinator as the entities see it: \<open>coordinator.last_update_success\<close> and
  \<open>coordinator.data\<close> (None while the device is offline).
\<close>

record coordinator =
  last_update_success :: bool
  co_data :: "wlanthermo_data option"

text \<open>
  The config entry holds two dictionaries, \<open>options\<close> and \<open>data\<close>; the entities read the
  key \<open>show_inactive_unavailable\<close> and use its truth value.
\<close>

record config_entry =
  cfg_options :: "string \<rightharpoonup> bool"
  cfg_data :: "string \<rightharpoonup> bool"

definition dict_get :: "(string \<rightharpoonup> 'v) \<Rightarrow> string \<Rightarrow> 'v \<Rightarrow> 'v" where
  "dict_get d k dflt = (case d k of None \<Rightarrow> dflt | Some v \<Rightarrow> v)"

text \<open>
  \<^verbatim>\<open>
  show_inactive = self.coordinator.config_entry.options.get(
      "show_inactive_unavailable",
      self.coordinator.config_entry.data.get("show_inactive_unavailable", True))
  \<close>
\<close>

definition show_inactive_unavailable :: "config_entry \<Rightarrow> bool" where
  "show_inactive_unavailable cfg =
     dict_get (cfg_options cfg) ''show_inactive_unavailable''
       (dict_get (cfg_data cfg) ''show_inactive_unavailable'' True)"

text \<open>\<^verbatim>\<open>getattr(self.coordinator.data, 'channels', [])\<close> and its siblings.\<close>

definition data_channels :: "coordinator \<Rightarrow> channel list" where
  "data_channels co = (case co_data co of None \<Rightarrow> [] | Some d \<Rightarrow> channels d)"

definition data_pitmasters :: "coordinator \<Rightarrow> pitmaster list" where
  "data_pitmasters co = (case co_data co of None \<Rightarrow> [] | Some d \<Rightarrow> pitmasters d)"

definition data_system :: "coordinator \<Rightarrow> system option" where
  "data_system co = (case co_data co of None \<Rightarrow> None | Some d \<Rightarrow> system d)"

section \<open>sensor.py: WlanthermoChannelTimeLeftSensor\<close>

text \<open>
  The entity keeps its channel number, the window length and a history
  \<^verbatim>\<open>collections.deque(maxlen=60)\<close> of \<open>(timestamp, temp)\<close> pairs.
\<close>

type_synonym sample = "rat \<times> rat"

record time_left_sensor =
  channel_number :: int
  window_seconds :: rat
  history :: "sample list"

text \<open>Appending to a deque of maximal length 60 drops the oldest entry of a full deque.\<close>

definition deque_append :: "'a list \<Rightarrow> 'a \<Rightarrow> 'a list" where
  "deque_append h x = (let h' = h @ [x] in if length h' > 60 then tl h' else h')"

text \<open>
  \<^verbatim>\<open>
  def _get_channel(self):
      channels = getattr(self.coordinator.data, 'channels', [])
      for ch in channels:
          if ch.number == self._channel_number:
              return ch
      return None
  \<close>
\<close>

definition get_channel :: "coordinator \<Rightarrow> int \<Rightarrow> channel option" where
  "get_channel co n = find (\<lambda>ch. ch_number ch = n) (data_channels co)"

text \<open>
  \<^verbatim>\<open>
  def available(self):
      if not self.coordinator.last_update_success:
          return False
      system = getattr(self.coordinator.data, "system", None)
      if system is None:
          return False
      channel = self._get_channel()
      if not channel:
          return False
      show_inactive = (...)
      temp = getattr(channel, "temp", None)
      if temp == 999.0 and show_inactive:
          return False
      return True
  \<close>
\<close>

definition available :: "coordinator \<Rightarrow> config_entry \<Rightarrow> time_left_sensor \<Rightarrow> bool" where
  "available co cfg s =
     (if \<not> last_update_success co then False
      else if data_system co = None then False
      else case get_channel co (channel_number s) of
        None \<Rightarrow> False
      | Some channel \<Rightarrow>
          let show_inactive = show_inactive_unavailable cfg;
              temp = ch_temp channel
          in if temp = Some 999 \<and> show_inactive then False else True)"

text \<open>
  Python's \<open>round(x, 2)\<close>: to the nearest multiple of one hundredth, a tie going to the
  even one.
\<close>

definition round2 :: "rat \<Rightarrow> rat" where
  "round2 x =
     (let y = x * 100; f = \<lfloor>y\<rfloor>; d = y - of_int f
      in of_int (if d < 1 / 2 then f else if 1 / 2 < d then f + 1
                 else if even f then f else f + 1) / 100)"

text \<open>
  \<^verbatim>\<open>
  def native_value(self) -> float | None:
      channel = self._get_channel()
      if not self.available or not channel:
          return None
      now = time.time()
      temp = getattr(channel, "temp", None)
      if temp is None:
          return None
      self._history.append((now, temp))
      window_start = now - self._window_seconds
      recent = [x for x in self._history if x[0] >= window_start]
      if len(recent) < 2:
          return None
      dt = recent[-1][0] - recent[0][0]
      dtemp = recent[-1][1] - recent[0][1]
      if dt <= 0 or dtemp <= 0:
          return 0
      rate_per_sec = dtemp / dt
      target = getattr(channel, "max", None)
      if target is None:
          return None
      time_left_min = (target - temp) / (rate_per_sec * 60)
      return round(max(time_left_min, 0), 2)
  \<close>
  The clock reading \<open>now\<close> is an argument; the function returns the value and the
  entity with its updated history. The division is reached only with \<open>dt > 0\<close> and
  \<open>dtemp > 0\<close>, so its divisor is not zero.
\<close>

definition recent_samples :: "sample list \<Rightarrow> rat \<Rightarrow> sample list" where
  "recent_samples h window_start = filter (\<lambda>x. fst x \<ge> window_start) h"

definition native_value ::
  "coordinator \<Rightarrow> config_entry \<Rightarrow> rat \<Rightarrow> time_left_sensor \<Rightarrow> rat option \<times> time_left_sensor" where
  "native_value co cfg now s =
     (case get_channel co (channel_number s) of
        None \<Rightarrow> (None, s)
      | Some channel \<Rightarrow>
          (if \<not> available co cfg s then (None, s)
           else
             (case ch_temp channel of
                None \<Rightarrow> (None, s)
              | Some temp \<Rightarrow>
                  (let s' = s\<lparr>history := deque_append (history s) (now, temp)\<rparr>;
                       window_start = now - window_seconds s;
                       recent = recent_samples (history s') window_start
                   in (if length recent < 2 then (None, s')
                       else
                         (let dt = fst (last recent) - fst (hd recent);
                              dtemp = snd (last recent) - snd (hd recent)
                          in (if dt \<le> 0 \<or> dtemp \<le> 0 then (Some 0, s')
                              else
                                (let rate_per_sec = dtemp / dt
                                 in (case ch_max channel of
                                       None \<Rightarrow> (None, s')
                                     | Some target \<Rightarrow>
                                         (let time_left_min =
                                                (target - temp) / (rate_per_sec * 60)
                                          in (Some (round2 (max time_left_min 0)), s')))))))))))"

section \<open>sensor.py: WlanthermoPitmasterTemperatureSensor\<close>

text \<open>
  The names bound at the top level of sensor.py: its imports, the logger, the setup
  function and the entity classes. A name that is not assigned in a function body is
  looked up here (and then among the builtins); a name found nowhere raises NameError.
  Every name of the list is bound to a module, a class, a function or a logger, all of
  them true in a condition.
\<close>

definition sensor_globals :: "string list" where
  "sensor_globals =
     [''EntityCategory'', ''DataUpdateCoordinator'', ''CoordinatorEntity'', ''SensorEntity'',
      ''SensorDeviceClass'', ''SensorStateClass'', ''BinarySensorEntity'',
      ''BinarySensorDeviceClass'', ''UnitOfTemperature'', ''PERCENTAGE'', ''UnitOfTime'',
      ''callback'', ''DOMAIN'', ''timedelta'', ''datetime'', ''WlanthermoData'', ''logging'',
      ''collections'', ''_LOGGER'', ''async_setup_entry'',
      ''WlanthermoChannelTemperatureSensor'', ''WlanthermoChannelTimeLeftSensor'',
      ''WlanthermoSystemSensor'', ''WlanthermoSystemGetUpdateSensor'',
      ''WlanthermoCloudLinkSensor'', ''WlanthermoSystemTimeSensor'',
      ''WlanthermoSystemUnitSensor'', ''WlanthermoSystemSocSensor'',
      ''WlanthermoSystemChargeSensor'', ''WlanthermoSystemRssiSensor'',
      ''WlanthermoSystemOnlineSensor'', ''WlanthermoDeviceInfoSensor'',
      ''WlanthermoSystemInfoSensor'', ''WlanthermoIotInfoSensor'', ''WlanthermoChannelSensor'',
      ''WlanthermoPitmasterSensor'', ''WlanthermoPitmasterValueSensor'',
      ''WlanthermoPitmasterTemperatureSensor'']"

definition load_global :: "string \<Rightarrow> py_error + bool" where
  "load_global name = (if name \<in> set sensor_globals then Inr True else Inl NameError)"

text \<open>
  \<^verbatim>\<open>
  def _get_channel(self):
      pitmasters = getattr(self.coordinator.data, 'pitmasters', [])
      pitmaster = next((pm for pm in pitmasters if pm.id == self._pitmaster_id), None)
      if not pitmaster:
          return None
      target_channel_number = getattr(pitmaster, "channel", None)
      if target_channel_number is None:
          return None
      channels = getattr(self.coordinator.data, 'channels', [])
      for channel in channels:
          if channel.number == target_channel_number:
              return channel
      return None
  \<close>
\<close>

definition pm_get_channel :: "coordinator \<Rightarrow> int \<Rightarrow> channel option" where
  "pm_get_channel co pitmaster_id =
     (case find (\<lambda>pm. pm_id pm = pitmaster_id) (data_pitmasters co) of
        None \<Rightarrow> None
      | Some pitmaster \<Rightarrow>
          (case pm_channel pitmaster of
             None \<Rightarrow> None
           | Some target_channel_number \<Rightarrow>
               find (\<lambda>channel. ch_number channel = target_channel_number) (data_channels co)))"

text \<open>
  \<^verbatim>\<open>
  def native_value(self):
      channel = self._get_channel()
      if not channel:
          return None
      temp = getattr(channel, "temp", None)
      if temp == 999.0 and show_inactive:
          return None
      return temp
  \<close>
  \<open>show_inactive\<close> is not assigned in this function, so it is a global lookup, and it
  is evaluated only when the left operand of \<open>and\<close> is true.
\<close>

definition pm_native_value :: "coordinator \<Rightarrow> int \<Rightarrow> py_error + rat option" where
  "pm_native_value co pitmaster_id =
     (case pm_get_channel co pitmaster_id of
        None \<Rightarrow> Inr None
      | Some channel \<Rightarrow>
          let temp = ch_temp channel
          in if temp = Some 999
             then (case load_global ''show_inactive'' of
                     Inl e \<Rightarrow> Inl e
                   | Inr show_inactive \<Rightarrow> if show_inactive then Inr None else Inr temp)
             else Inr temp)"

section \<open>JSON payloads and Python truth values\<close>

text \<open>
  A decoded JSON document. \<open>JNull\<close> is also Python's \<open>None\<close>, which is what the read
  helpers return instead of a document when a request fails. A dictionary is an
  association list, in the order of its keys.
\<close>

datatype json =
    JNull
  | JBool bool
  | JNum rat
  | JStr string
  | JList "json list"
  | JDict "(string \<times> json) list"

text \<open>The truth value Python gives a document in a condition (\<open>if not raw_data\<close>).\<close>

fun truthy :: "json \<Rightarrow> bool" where
  "truthy JNull = False"
| "truthy (JBool b) = b"
| "truthy (JNum n) = (n \<noteq> 0)"
| "truthy (JStr s) = (s \<noteq> [])"
| "truthy (JList xs) = (xs \<noteq> [])"
| "truthy (JDict kvs) = (kvs \<noteq> [])"

section \<open>Strings: strip and lower\<close>

text \<open>
  Response bodies are modelled as strings over the code points 0 to 255. On these,
  \<open>str.strip()\<close> removes the leading and trailing characters for which \<open>isspace\<close> holds
  (tab to carriage return, the separators 28 to 31, space, 133 and 160), and
  \<open>str.lower()\<close> maps \<open>A\<close> to \<open>Z\<close> and the capital letters 192 to 222 (215, the
  multiplication sign, apart) to the code point 32 above.
\<close>

definition isspace :: "char \<Rightarrow> bool" where
  "isspace c =
     (let n = (of_char c :: nat)
      in (9 \<le> n \<and> n \<le> 13) \<or> (28 \<le> n \<and> n \<le> 32) \<or> n = 133 \<or> n = 160)"

definition lower_char :: "char \<Rightarrow> char" where
  "lower_char c =
     (let n = (of_char c :: nat)
      in if (65 \<le> n \<and> n \<le> 90) \<or> (192 \<le> n \<and> n \<le> 222 \<and> n \<noteq> 215)
         then char_of (n + 32) else c)"

definition str_lower :: "string \<Rightarrow> string" where
  "str_lower s = map lower_char s"

definition str_strip :: "string \<Rightarrow> string" where
  "str_strip s = rev (dropWhile isspace (rev (dropWhile isspace s)))"

section \<open>api.py: the device client\<close>

text \<open>
  The device and the network between are a parameter of the model: what a GET of an
  endpoint yields (a transport error or timeout, or a status with the body decoded as
  JSON, \<open>None\<close> when it does not decode), and what a request with a method, an endpoint
  and a JSON payload yields (an error, or a status with the body as text).
\<close>

datatype get_reply = GetError | GetReply int "json option"

datatype request_reply = RequestError | RequestReply int string

type_synonym get_device = "string \<Rightarrow> get_reply"

type_synonym request_device = "string \<Rightarrow> string \<Rightarrow> json option \<Rightarrow> request_reply"

text \<open>
  \<^verbatim>\<open>
  async def _get(self, endpoint):
      try:
          async with async_timeout.timeout(10):
              async with session.get(url, ...) as resp:
                  if resp.status != 200:
                      return None
                  try:
                      data = await resp.json()
                      return data
                  except Exception as json_err:
                      return None
      except Exception as err:
          return None
  \<close>
\<close>

definition get_endpoint :: "get_device \<Rightarrow> string \<Rightarrow> json" where
  "get_endpoint dev endpoint =
     (case dev endpoint of
        GetError \<Rightarrow> JNull
      | GetReply status body \<Rightarrow>
          if status \<noteq> 200 then JNull
          else (case body of None \<Rightarrow> JNull | Some data \<Rightarrow> data))"

definition get_data :: "get_device \<Rightarrow> json" where
  "get_data dev = get_endpoint dev ''/data''"

definition get_settings :: "get_device \<Rightarrow> json" where
  "get_settings dev = get_endpoint dev ''/settings''"

text \<open>
  \<^verbatim>\<open>
  async def _request(self, method, endpoint, json=None):
      try:
          async with async_timeout.timeout(10):
              req = getattr(session, method.lower())
              async with req(url, json=json, ...) as resp:
                  text = await resp.text()
                  return resp.status, text
      except Exception as err:
          return None, None
  \<close>
\<close>

definition request ::
  "request_device \<Rightarrow> string \<Rightarrow> string \<Rightarrow> json option \<Rightarrow> int option \<times> string option" where
  "request dev method endpoint js =
     (case dev (str_lower method) endpoint js of
        RequestError \<Rightarrow> (None, None)
      | RequestReply status text \<Rightarrow> (Some status, Some text))"

text \<open>
  Every write helper ends in the same expression,
  \<^verbatim>\<open>return status == 200 and text and text.strip().lower() == "true"\<close>.
  Its value is \<open>False\<close> when the status is not 200, else the text itself when the text
  is \<open>None\<close> or empty, else the result of the comparison. The callers use the value
  in a condition (\<open>if success:\<close>).
\<close>

datatype pyval = PNone | PBool bool | PStr string

fun truthy_val :: "pyval \<Rightarrow> bool" where
  "truthy_val PNone = False"
| "truthy_val (PBool b) = b"
| "truthy_val (PStr s) = (s \<noteq> [])"

definition write_result :: "int option \<times> string option \<Rightarrow> pyval" where
  "write_result r =
     (case r of (status, text) \<Rightarrow>
        if status \<noteq> Some 200 then PBool False
        else (case text of
                None \<Rightarrow> PNone
              | Some t \<Rightarrow> if t = [] then PStr t
                          else PBool (str_lower (str_strip t) = ''true'')))"

definition async_set_channel :: "request_device \<Rightarrow> json \<Rightarrow> string \<Rightarrow> pyval" where
  "async_set_channel dev channel_data method =
     write_result (request dev method ''/setchannels'' (Some channel_data))"

definition async_set_pitmaster :: "request_device \<Rightarrow> json \<Rightarrow> string \<Rightarrow> pyval" where
  "async_set_pitmaster dev pitmaster_data method =
     write_result (request dev method ''/setpitmaster'' (Some (JList [pitmaster_data])))"

definition async_set_pid_profile :: "request_device \<Rightarrow> json \<Rightarrow> string \<Rightarrow> pyval" where
  "async_set_pid_profile dev pid_data method =
     write_result (request dev method ''/setpid'' (Some pid_data))"

definition async_set_bluetooth :: "request_device \<Rightarrow> json \<Rightarrow> string \<Rightarrow> pyval" where
  "async_set_bluetooth dev bluetooth_data method =
     write_result (request dev method ''/setbluetooth'' (Some bluetooth_data))"

definition async_set_push :: "request_device \<Rightarrow> json \<Rightarrow> string \<Rightarrow> pyval" where
  "async_set_push dev push_data method =
     write_result (request dev method ''/setpush'' (Some push_data))"

definition async_set_iot :: "request_device \<Rightarrow> json \<Rightarrow> string \<Rightarrow> pyval" where
  "async_set_iot dev iot_data method =
     write_result (request dev method ''/setIoT'' (Some iot_data))"

text \<open>
  The acknowledgment in the words of the interface description: the body is the word
  \<open>true\<close> in any mix of upper and lower case, with white space before and after it.
\<close>

definition eq_ignore_case :: "string \<Rightarrow> string \<Rightarrow> bool" where
  "eq_ignore_case a b = list_all2 (\<lambda>x y. lower_char x = lower_char y) a b"

definition spec_ack_body :: "string \<Rightarrow> bool" where
  "spec_ack_body text =
     (\<exists>l c r. text = l @ c @ r \<and> list_all isspace l \<and> list_all isspace r \<and>
        eq_ignore_case c ''true'')"

section \<open>__init__.py: one poll cycle\<close>

text \<open>
  The client object carries the settings cache \<open>api.settings\<close>; the attribute does not
  exist before the first successful parse. The parser \<open>SettingsData.from_json\<close> and the
  snapshot constructor \<open>WlanthermoData\<close> belong to data.py; they are parameters here,
  each returning its object or raising.
  \<^verbatim>\<open>
  async def async_update_data():
      try:
          raw_data = await api.get_data()
          if not raw_data:
              return None
          try:
              raw_settings = await api.get_settings()
              if raw_settings:
                  api.settings = SettingsData.from_json(raw_settings)
          except Exception:
              _LOGGER.debug("WLANThermo: Device offline (no /settings)")
          return WlanthermoData(raw_data)
      except Exception as exc:
          return None
  \<close>
  The model returns what the function returns or raises, and the client after the call.
\<close>

record 's api =
  settings :: "'s option"

definition async_update_data ::
  "(json \<Rightarrow> py_error + 's) \<Rightarrow> (json \<Rightarrow> py_error + 'd) \<Rightarrow> get_device \<Rightarrow> 's api
     \<Rightarrow> (py_error + 'd option) \<times> 's api" where
  "async_update_data from_json WlanthermoData dev api =
     (let raw_data = get_data dev
      in if \<not> truthy raw_data then (Inr None, api)
         else
           (let api' =
                  (let raw_settings = get_settings dev
                   in if truthy raw_settings
                      then (case from_json raw_settings of
                              Inl e \<Rightarrow> api
                            | Inr parsed \<Rightarrow> api\<lparr>settings := Some parsed\<rparr>)
                      else api)
            in (case WlanthermoData raw_data of
                  Inl exc \<Rightarrow> (Inr None, api')
                | Inr snapshot \<Rightarrow> (Inr (Some snapshot), api'))))"

text \<open>
  \<^verbatim>\<open>
  coordinator = DebugDataUpdateCoordinator(
      hass, _LOGGER, name="WLANThermoData",
      update_method=async_update_data,
      update_interval=timedelta(seconds=scan_interval))
  await coordinator.async_refresh()
  \<close>
  The coordinator class comes from the host framework. A refresh awaits the update
  method and publishes what it returned as \<open>coordinator.data\<close>; had the method raised,
  the data would stay as it was. The integration is written against this: the update
  method returns \<open>None\<close> for an offline device instead of raising (its docstring: do not
  raise UpdateFailed), and the platforms read the outcome
  (\<^verbatim>\<open># Device offline? -> coordinator.data = None\<close> before
  \<^verbatim>\<open>if coordinator.data is None:\<close> in sensor.py, \<^verbatim>\<open>if not coordinator.data:\<close> in
  button.py). The model takes the data published before the cycle and returns the data
  published after it, with the client.
\<close>

definition async_refresh ::
  "(json \<Rightarrow> py_error + 's) \<Rightarrow> (json \<Rightarrow> py_error + 'd) \<Rightarrow> get_device \<Rightarrow> 's api
     \<Rightarrow> 'd option \<Rightarrow> 'd option \<times> 's api" where
  "async_refresh from_json WlanthermoData dev api published =
     (case async_update_data from_json WlanthermoData dev api of
        (Inl exc, api') \<Rightarrow> (published, api')
      | (Inr returned, api') \<Rightarrow> (returned, api'))"

section \<open>button.py: the debounced buttons\<close>

text \<open>
  Each button keeps the clock reading of the last press that passed the check,
  \<open>self._last_press\<close>, 0.0 after construction. A press takes the reading of
  \<open>time.monotonic()\<close> and returns its outcome, the button afterwards and the effects
  it had, in order. \<open>self.coordinator.api\<close> is taken to be the device client of api.py,
  as the buttons use it; a request sent through it is recorded as an effect.
\<close>

definition DEBOUNCE_SECONDS :: rat where
  "DEBOUNCE_SECONDS = 5"

record button =
  last_press :: rat

definition new_button :: button where
  "new_button = \<lparr>last_press = 0\<rparr>"

datatype effect =
    DeviceRequest string string "json option"
  | SetCLtoken string
  | RequestRefresh

fun is_device_request :: "effect \<Rightarrow> bool" where
  "is_device_request (DeviceRequest m e p) = True"
| "is_device_request (SetCLtoken t) = False"
| "is_device_request RequestRefresh = False"

definition device_requests :: "effect list \<Rightarrow> effect list" where
  "device_requests es = filter is_device_request es"

type_synonym press_result = "(py_error + unit) \<times> button \<times> effect list"

text \<open>
  \<^verbatim>\<open>
  async def async_press(self) -> None:
      now = time.monotonic()
      if now - self._last_press < DEBOUNCE_SECONDS:
          return
      self._last_press = now
      telegram = self.coordinator.data.push.telegram
      payload = {"test": True, "telegram": telegram.to_payload()}
      await self.coordinator.api.async_set_push(payload)
  \<close>
  The argument \<open>telegram\<close> is the payload of \<open>coordinator.data.push.telegram\<close>, absent
  when \<open>coordinator.data\<close> is \<open>None\<close>; the attribute access then raises. The write goes
  out with the default method of \<open>async_set_push\<close>, and its result is not used.
\<close>

definition telegram_async_press :: "json option \<Rightarrow> rat \<Rightarrow> button \<Rightarrow> press_result" where
  "telegram_async_press telegram now b =
     (if now - last_press b < DEBOUNCE_SECONDS then (Inr (), b, [])
      else
        (let b' = b\<lparr>last_press := now\<rparr>
         in (case telegram of
               None \<Rightarrow> (Inl AttributeError, b', [])
             | Some t \<Rightarrow>
                 (let payload = JDict [(''test'', JBool True), (''telegram'', t)]
                  in (Inr (), b', [DeviceRequest ''POST'' ''/setpush'' (Some payload)])))))"

text \<open>The Pushover button is the same with the key \<open>pushover\<close>.\<close>

definition pushover_async_press :: "json option \<Rightarrow> rat \<Rightarrow> button \<Rightarrow> press_result" where
  "pushover_async_press pushover now b =
     (if now - last_press b < DEBOUNCE_SECONDS then (Inr (), b, [])
      else
        (let b' = b\<lparr>last_press := now\<rparr>
         in (case pushover of
               None \<Rightarrow> (Inl AttributeError, b', [])
             | Some p \<Rightarrow>
                 (let payload = JDict [(''test'', JBool True), (''pushover'', p)]
                  in (Inr (), b', [DeviceRequest ''POST'' ''/setpush'' (Some payload)])))))"

text \<open>
  \<^verbatim>\<open>
  async def async_press(self) -> None:
      now = time.monotonic()
      if now - self._last_press < DEBOUNCE_SECONDS:
          return
      self._last_press = now
      try:
          status, text = await self.coordinator.api._request("POST", "/newtoken")
          if status == 200 and text:
              new_token = text.strip()
              self.coordinator.data.settings.iot.CLtoken = new_token
              await self.coordinator.async_request_refresh()
          else:
              _LOGGER.warning(...)
      except Exception:
          _LOGGER.exception("Error while generating new IoT token")
  \<close>
  \<open>reply\<close> is the device's answer to the request; \<open>iot_reachable\<close> says whether
  \<open>coordinator.data.settings.iot\<close> exists, the assignment raising otherwise, which the
  handler catches.
\<close>

definition newtoken_async_press :: "request_reply \<Rightarrow> bool \<Rightarrow> rat \<Rightarrow> button \<Rightarrow> press_result" where
  "newtoken_async_press reply iot_reachable now b =
     (if now - last_press b < DEBOUNCE_SECONDS then (Inr (), b, [])
      else
        (let b' = b\<lparr>last_press := now\<rparr>;
             req = DeviceRequest ''POST'' ''/newtoken'' None
         in (case reply of
               RequestError \<Rightarrow> (Inr (), b', [req])
             | RequestReply status text \<Rightarrow>
                 if status = 200 \<and> text \<noteq> []
                 then (if iot_reachable
                       then (Inr (), b', [req, SetCLtoken (str_strip text), RequestRefresh])
                       else (Inr (), b', [req]))
                 else (Inr (), b', [req]))))"

section \<open>Theorems\<close>

subsection \<open>Supporting facts\<close>

text \<open>A read yields a document that counts as true exactly when the device answered
  with status 200 and a body that decodes to such a document.\<close>

lemma get_endpoint_truthy:
  "truthy (get_endpoint dev ep) \<longleftrightarrow>
     (\<exists>raw. dev ep = GetReply 200 (Some raw) \<and> truthy raw)"
  by (auto simp: get_endpoint_def split: get_reply.splits option.splits)

lemma get_endpoint_reply:
  "dev ep = GetReply 200 (Some raw) \<Longrightarrow> get_endpoint dev ep = raw"
  by (simp add: get_endpoint_def)

lemma get_endpoint_falsy:
  "\<not> truthy (get_endpoint dev ep) \<longleftrightarrow>
     (dev ep = GetError \<or>
      (\<exists>st body. dev ep = GetReply st body \<and>
         (st \<noteq> 200 \<or> body = None \<or> (\<exists>j. body = Some j \<and> \<not> truthy j))))"
  by (auto simp: get_endpoint_def split: get_reply.splits option.splits)

text \<open>White space is left alone by \<open>lower\<close>, so no letter of \<open>true\<close> comes from it.\<close>

lemma lower_char_space: "isspace c \<Longrightarrow> lower_char c = c"
  by (auto simp: isspace_def lower_char_def Let_def)

lemma lower_t_not_space: "lower_char c = CHR ''t'' \<Longrightarrow> \<not> isspace c"
  using lower_char_space [of c] by (auto simp: isspace_def Let_def)

lemma lower_e_not_space: "lower_char c = CHR ''e'' \<Longrightarrow> \<not> isspace c"
  using lower_char_space [of c] by (auto simp: isspace_def Let_def)

text \<open>\<open>strip\<close> cuts white space off both ends and nothing else.\<close>

lemma str_strip_decomposition:
  "\<exists>l r. s = l @ str_strip s @ r \<and> list_all isspace l \<and> list_all isspace r"
proof -
  let ?u = "dropWhile isspace s"
  let ?tail = "rev (takeWhile isspace (rev ?u))"
  have pre: "s = takeWhile isspace s @ ?u"
    by simp
  have post: "?u = str_strip s @ ?tail"
    unfolding str_strip_def by (metis rev_append rev_rev_ident takeWhile_dropWhile_id)
  have spaces_front: "list_all isspace (takeWhile isspace s)"
    by (simp add: list_all_iff) (meson set_takeWhileD)
  have spaces_back: "list_all isspace ?tail"
    by (simp add: list_all_iff) (meson set_takeWhileD)
  from pre post have "s = takeWhile isspace s @ str_strip s @ ?tail"
    by simp
  with spaces_front spaces_back show ?thesis
    by blast
qed

lemma str_strip_core:
  assumes "list_all isspace l" and "list_all isspace r"
    and "c \<noteq> []" and "\<not> isspace (hd c)" and "\<not> isspace (last c)"
  shows "str_strip (l @ c @ r) = c"
proof -
  from assms(1,3,4) have left: "dropWhile isspace (l @ c @ r) = c @ r"
    by (cases c) (auto simp: list_all_iff dropWhile_append)
  from assms(2,3,5) have "dropWhile isspace (rev r @ rev c) = rev c"
    by (cases "rev c") (auto simp: list_all_iff dropWhile_append last_rev hd_rev)
  then show ?thesis
    by (simp add: str_strip_def left)
qed

lemma str_lower_true: "str_lower c = ''true'' \<longleftrightarrow> eq_ignore_case c ''true''"
  by (auto simp: str_lower_def eq_ignore_case_def lower_char_def list_all2_Cons2)

lemma ack_body_iff: "str_lower (str_strip t) = ''true'' \<longleftrightarrow> spec_ack_body t"
proof
  assume low: "str_lower (str_strip t) = ''true''"
  from str_strip_decomposition [of t] obtain l r
    where "t = l @ str_strip t @ r" "list_all isspace l" "list_all isspace r"
    by blast
  with low show "spec_ack_body t"
    unfolding spec_ack_body_def str_lower_true by blast
next
  assume "spec_ack_body t"
  then obtain l c r where t: "t = l @ c @ r"
    and l: "list_all isspace l" and r: "list_all isspace r"
    and c: "eq_ignore_case c ''true''"
    unfolding spec_ack_body_def by blast
  from c obtain c0 c1 c2 c3 where "c = [c0, c1, c2, c3]"
    "lower_char c0 = CHR ''t''" "lower_char c3 = CHR ''e''"
    by (auto simp: eq_ignore_case_def list_all2_Cons2 lower_char_def)
  then have "c \<noteq> []" "\<not> isspace (hd c)" "\<not> isspace (last c)"
    using lower_t_not_space lower_e_not_space by auto
  from str_strip_core [OF l r this] t have "str_strip t = c"
    by simp
  with c show "str_lower (str_strip t) = ''true''"
    by (simp add: str_lower_true)
qed

lemma write_result_truthy:
  "truthy_val (write_result (request dev method endpoint js)) \<longleftrightarrow>
     (\<exists>t. dev (str_lower method) endpoint js = RequestReply 200 t \<and> spec_ack_body t)"
  by (auto simp: write_result_def request_def ack_body_iff [symmetric] str_strip_def str_lower_def
      split: request_reply.splits)

lemma round2_nonneg: "0 \<le> x \<Longrightarrow> 0 \<le> round2 x"
  by (auto simp: round2_def Let_def)

subsection \<open>The poll cycle\<close>

text \<open>
  C1 (as amended). In every poll cycle in which the fetch of \<open>/data\<close> fails (transport
  error, a status other than 200, a body that is not JSON) or returns an empty payload,
  the update function returns \<open>None\<close> and raises nothing, the client with its settings
  cache is left as it was, and the refresh publishes that \<open>None\<close>: the data published
  before the cycle is replaced as a whole, no part of it is overwritten and nothing of
  it stays published.
\<close>

theorem data_failure_returns_none:
  assumes "dev ''/data'' = GetError \<or>
     (\<exists>st body. dev ''/data'' = GetReply st body \<and>
        (st \<noteq> 200 \<or> body = None \<or> (\<exists>j. body = Some j \<and> \<not> truthy j)))"
  shows "async_update_data from_json WlanthermoData dev api = (Inr None, api) \<and>
    async_refresh from_json WlanthermoData dev api published = (None, api)"
proof -
  from assms have "\<not> truthy (get_data dev)"
    unfolding get_data_def get_endpoint_falsy .
  then have "async_update_data from_json WlanthermoData dev api = (Inr None, api)"
    by (simp add: async_update_data_def)
  then show ?thesis
    by (simp add: async_refresh_def)
qed

theorem data_failure_returns_none_witness:
  "async_update_data (\<lambda>j. Inr j :: py_error + json) (\<lambda>j. Inr j :: py_error + json)
     (\<lambda>ep. if ep = ''/data'' then GetReply 200 (Some (JDict [])) else GetReply 200 (Some (JBool True)))
     \<lparr>settings = Some (JNum 7)\<rparr>
   = (Inr None, \<lparr>settings = Some (JNum 7)\<rparr>) \<and>
   async_refresh (\<lambda>j. Inr j :: py_error + json) (\<lambda>j. Inr j :: py_error + json)
     (\<lambda>ep. if ep = ''/data'' then GetReply 200 (Some (JDict [])) else GetReply 200 (Some (JBool True)))
     \<lparr>settings = Some (JNum 7)\<rparr> (Some (JBool True))
   = (None, \<lparr>settings = Some (JNum 7)\<rparr>)"
proof -
  let ?dev = "\<lambda>ep. if ep = ''/data'' then GetReply 200 (Some (JDict []))
                   else GetReply 200 (Some (JBool True))"
  have "?dev ''/data'' = GetError \<or>
     (\<exists>st body. ?dev ''/data'' = GetReply st body \<and>
        (st \<noteq> 200 \<or> body = None \<or> (\<exists>j. body = Some j \<and> \<not> truthy j)))"
    by simp
  from data_failure_returns_none [where dev = ?dev, OF this] show ?thesis .
qed

text \<open>
  The snapshot published before a failing cycle does not stay published: after a
  successful cycle has published a snapshot, a cycle whose \<open>/data\<close> fetch fails leaves
  \<open>None\<close> in its place.
\<close>

theorem published_snapshot_replaced_by_none:
  "fst (async_refresh (\<lambda>j. Inr j :: py_error + json) (\<lambda>j. Inr j :: py_error + json)
          (\<lambda>ep. if ep = ''/data'' then GetReply 200 (Some (JBool True)) else GetError)
          \<lparr>settings = Some (JNum 7)\<rparr> None) = Some (JBool True) \<and>
   fst (async_refresh (\<lambda>j. Inr j :: py_error + json) (\<lambda>j. Inr j :: py_error + json)
          (\<lambda>ep. GetError)
          \<lparr>settings = Some (JNum 7)\<rparr> (Some (JBool True))) = None \<and>
   fst (async_refresh (\<lambda>j. Inr j :: py_error + json) (\<lambda>j. Inr j :: py_error + json)
          (\<lambda>ep. GetError)
          \<lparr>settings = Some (JNum 7)\<rparr> (Some (JBool True))) \<noteq> Some (JBool True)"
  by (simp add: async_refresh_def async_update_data_def get_data_def get_settings_def
      get_endpoint_def)

text \<open>
  C2. In every poll cycle in which the fetch of \<open>/data\<close> succeeds and the snapshot is
  built from it, while the fetch of \<open>/settings\<close> fails or returns an empty payload, the
  cycle returns that snapshot and the cached settings are those from before the cycle.
  In any cycle, the cache differs afterwards only if \<open>/settings\<close> was fetched with
  success and parsed, and then it holds the parsed settings.
\<close>

theorem settings_failure_keeps_cache:
  "(dev ''/data'' = GetReply 200 (Some raw_data) \<and> truthy raw_data \<and>
    WlanthermoData raw_data = Inr snapshot \<and>
    (dev ''/settings'' = GetError \<or>
     (\<exists>st body. dev ''/settings'' = GetReply st body \<and>
        (st \<noteq> 200 \<or> body = None \<or> (\<exists>j. body = Some j \<and> \<not> truthy j))))
    \<longrightarrow> async_update_data from_json WlanthermoData dev api = (Inr (Some snapshot), api))
   \<and>
   (settings (snd (async_update_data from_json WlanthermoData dev api)) \<noteq> settings api
    \<longrightarrow> (\<exists>raw parsed. dev ''/settings'' = GetReply 200 (Some raw) \<and> truthy raw \<and>
          from_json raw = Inr parsed \<and>
          settings (snd (async_update_data from_json WlanthermoData dev api)) = Some parsed))"
proof (intro conjI impI)
  assume a: "dev ''/data'' = GetReply 200 (Some raw_data) \<and> truthy raw_data \<and>
    WlanthermoData raw_data = Inr snapshot \<and>
    (dev ''/settings'' = GetError \<or>
     (\<exists>st body. dev ''/settings'' = GetReply st body \<and>
        (st \<noteq> 200 \<or> body = None \<or> (\<exists>j. body = Some j \<and> \<not> truthy j))))"
  then have data: "get_data dev = raw_data"
    by (simp add: get_data_def get_endpoint_reply)
  from a have "\<not> truthy (get_settings dev)"
    unfolding get_settings_def get_endpoint_falsy by blast
  with a data show "async_update_data from_json WlanthermoData dev api = (Inr (Some snapshot), api)"
    by (simp add: async_update_data_def)
next
  assume changed:
    "settings (snd (async_update_data from_json WlanthermoData dev api)) \<noteq> settings api"
  then have t: "truthy (get_settings dev)"
    by (auto simp: async_update_data_def Let_def split: if_splits sum.splits)
  then obtain raw where raw: "dev ''/settings'' = GetReply 200 (Some raw)" "truthy raw"
    unfolding get_settings_def get_endpoint_truthy by blast
  then have eq: "get_settings dev = raw"
    by (simp add: get_settings_def get_endpoint_reply)
  from changed t eq obtain parsed where "from_json raw = Inr parsed"
    "settings (snd (async_update_data from_json WlanthermoData dev api)) = Some parsed"
    by (auto simp: async_update_data_def Let_def split: if_splits sum.splits)
  with raw show "\<exists>raw parsed. dev ''/settings'' = GetReply 200 (Some raw) \<and> truthy raw \<and>
          from_json raw = Inr parsed \<and>
          settings (snd (async_update_data from_json WlanthermoData dev api)) = Some parsed"
    by blast
qed

theorem settings_failure_keeps_cache_witness:
  "async_update_data (\<lambda>j. Inr j :: py_error + json) (\<lambda>j. Inr j :: py_error + json)
     (\<lambda>ep. if ep = ''/data'' then GetReply 200 (Some (JBool True)) else GetReply 404 None)
     \<lparr>settings = Some (JNum 7)\<rparr>
   = (Inr (Some (JBool True)), \<lparr>settings = Some (JNum 7)\<rparr>)
   \<and>
   (\<exists>raw parsed.
      (if ''/settings'' = ''/data'' then GetReply 200 (Some (JBool True))
       else GetReply 200 (Some (JNum 8))) = GetReply 200 (Some raw) \<and> truthy raw \<and>
      (Inr raw :: py_error + json) = Inr parsed \<and>
      settings (snd (async_update_data (\<lambda>j. Inr j :: py_error + json)
         (\<lambda>j. Inr j :: py_error + json)
         (\<lambda>ep. if ep = ''/data'' then GetReply 200 (Some (JBool True))
               else GetReply 200 (Some (JNum 8)))
         \<lparr>settings = Some (JNum 7)\<rparr>)) = Some parsed)"
proof -
  let ?id = "\<lambda>j. Inr j :: py_error + json"
  let ?dev1 = "\<lambda>ep. if ep = ''/data'' then GetReply 200 (Some (JBool True)) else GetReply 404 None"
  let ?dev2 = "\<lambda>ep. if ep = ''/data'' then GetReply 200 (Some (JBool True))
                    else GetReply 200 (Some (JNum 8))"
  let ?api = "\<lparr>settings = Some (JNum 7)\<rparr>"
  have fails: "?dev1 ''/data'' = GetReply 200 (Some (JBool True)) \<and> truthy (JBool True) \<and>
    ?id (JBool True) = Inr (JBool True) \<and>
    (?dev1 ''/settings'' = GetError \<or>
     (\<exists>st body. ?dev1 ''/settings'' = GetReply st body \<and>
        (st \<noteq> 200 \<or> body = None \<or> (\<exists>j. body = Some j \<and> \<not> truthy j))))"
    by simp
  have changed: "settings (snd (async_update_data ?id ?id ?dev2 ?api)) \<noteq> settings ?api"
    by (simp add: async_update_data_def get_data_def get_settings_def get_endpoint_def)
  from settings_failure_keeps_cache [where dev = ?dev1 and raw_data = "JBool True"
      and snapshot = "JBool True" and from_json = ?id and WlanthermoData = ?id and api = ?api] fails
  have first: "async_update_data ?id ?id ?dev1 ?api = (Inr (Some (JBool True)), ?api)"
    by blast
  from settings_failure_keeps_cache [where dev = ?dev2 and raw_data = "JBool True"
      and snapshot = "JBool True" and from_json = ?id and WlanthermoData = ?id and api = ?api] changed
  have second: "\<exists>raw parsed. ?dev2 ''/settings'' = GetReply 200 (Some raw) \<and> truthy raw \<and>
          ?id raw = Inr parsed \<and>
          settings (snd (async_update_data ?id ?id ?dev2 ?api)) = Some parsed"
    by blast
  from first second show ?thesis
    by simp
qed

subsection \<open>The write helpers\<close>

text \<open>
  C3. For each write endpoint (\<open>/setchannels\<close>, \<open>/setpitmaster\<close>, \<open>/setpid\<close>,
  \<open>/setbluetooth\<close>, \<open>/setpush\<close>, \<open>/setIoT\<close>) and every answer of the device, the write
  helper reports success if and only if the status is 200 and the body, trimmed of
  surrounding white space and compared without regard to case, is \<open>true\<close>; an error, any
  other status or any other body reports failure.
\<close>

theorem write_helpers_success_iff:
  "(truthy_val (async_set_channel dev payload method) \<longleftrightarrow>
      (\<exists>t. dev (str_lower method) ''/setchannels'' (Some payload) = RequestReply 200 t \<and>
           spec_ack_body t)) \<and>
   (truthy_val (async_set_pitmaster dev payload method) \<longleftrightarrow>
      (\<exists>t. dev (str_lower method) ''/setpitmaster'' (Some (JList [payload])) = RequestReply 200 t \<and>
           spec_ack_body t)) \<and>
   (truthy_val (async_set_pid_profile dev payload method) \<longleftrightarrow>
      (\<exists>t. dev (str_lower method) ''/setpid'' (Some payload) = RequestReply 200 t \<and>
           spec_ack_body t)) \<and>
   (truthy_val (async_set_bluetooth dev payload method) \<longleftrightarrow>
      (\<exists>t. dev (str_lower method) ''/setbluetooth'' (Some payload) = RequestReply 200 t \<and>
           spec_ack_body t)) \<and>
   (truthy_val (async_set_push dev payload method) \<longleftrightarrow>
      (\<exists>t. dev (str_lower method) ''/setpush'' (Some payload) = RequestReply 200 t \<and>
           spec_ack_body t)) \<and>
   (truthy_val (async_set_iot dev payload method) \<longleftrightarrow>
      (\<exists>t. dev (str_lower method) ''/setIoT'' (Some payload) = RequestReply 200 t \<and>
           spec_ack_body t))"
  unfolding async_set_channel_def async_set_pitmaster_def async_set_pid_profile_def
    async_set_bluetooth_def async_set_push_def async_set_iot_def write_result_truthy
  by simp


subsection \<open>The time-left forecast\<close>

text \<open>
  C4 (as amended). With the history holding the sample \<open>(t=0, temp=50)\<close>, the reading
  \<open>temp=60\<close> taken at \<open>t=300\<close>, a target of 70 and a window of 300 seconds, both samples
  are in the window and the forecast is 5 minutes: ten degrees to go at two degrees a
  minute. The value 300 is not what it returns.
\<close>

theorem time_left_example:
  "fst (native_value
     \<lparr>last_update_success = True,
      co_data = Some \<lparr>channels = [\<lparr>ch_number = 1, ch_temp = Some 60, ch_max = Some 70\<rparr>],
                       pitmasters = [], system = Some \<lparr>sys_online = 2\<rparr>\<rparr>\<rparr>
     \<lparr>cfg_options = Map.empty, cfg_data = Map.empty\<rparr>
     300
     \<lparr>channel_number = 1, window_seconds = 300, history = [(0, 50)]\<rparr>) = Some 5"
  by (simp add: native_value_def get_channel_def data_channels_def available_def
      data_system_def show_inactive_unavailable_def dict_get_def deque_append_def
      recent_samples_def round2_def Let_def)

theorem time_left_example_not_300:
  "fst (native_value
     \<lparr>last_update_success = True,
      co_data = Some \<lparr>channels = [\<lparr>ch_number = 1, ch_temp = Some 60, ch_max = Some 70\<rparr>],
                       pitmasters = [], system = Some \<lparr>sys_online = 2\<rparr>\<rparr>\<rparr>
     \<lparr>cfg_options = Map.empty, cfg_data = Map.empty\<rparr>
     300
     \<lparr>channel_number = 1, window_seconds = 300, history = [(0, 50)]\<rparr>) \<noteq> Some 300"
  by (simp add: native_value_def get_channel_def data_channels_def available_def
      data_system_def show_inactive_unavailable_def dict_get_def deque_append_def
      recent_samples_def round2_def Let_def)

text \<open>
  C5 (as amended). While the option \<open>show_inactive_unavailable\<close> is on, as it is by
  default, a reading equal to the sentinel 999.0 is never appended to the channel's
  history: the evaluation returns unknown and leaves the entity as it was.
\<close>

theorem sentinel_not_buffered:
  assumes "show_inactive_unavailable cfg"
    and "get_channel co (channel_number s) = Some channel"
    and "ch_temp channel = Some 999"
  shows "native_value co cfg now s = (None, s)"
  using assms by (simp add: native_value_def available_def Let_def)

theorem sentinel_not_buffered_witness:
  "show_inactive_unavailable \<lparr>cfg_options = Map.empty, cfg_data = Map.empty\<rparr> \<and>
   native_value
     \<lparr>last_update_success = True,
      co_data = Some \<lparr>channels = [\<lparr>ch_number = 1, ch_temp = Some 999, ch_max = Some 70\<rparr>],
                       pitmasters = [], system = Some \<lparr>sys_online = 2\<rparr>\<rparr>\<rparr>
     \<lparr>cfg_options = Map.empty, cfg_data = Map.empty\<rparr>
     300
     \<lparr>channel_number = 1, window_seconds = 300, history = [(0, 50)]\<rparr>
   = (None, \<lparr>channel_number = 1, window_seconds = 300, history = [(0, 50)]\<rparr>)"
proof -
  let ?cfg = "\<lparr>cfg_options = Map.empty, cfg_data = Map.empty\<rparr>"
  let ?ch = "\<lparr>ch_number = 1, ch_temp = Some 999, ch_max = Some 70\<rparr>"
  let ?co = "\<lparr>last_update_success = True,
      co_data = Some \<lparr>channels = [?ch], pitmasters = [], system = Some \<lparr>sys_online = 2\<rparr>\<rparr>\<rparr>"
  let ?s = "\<lparr>channel_number = 1, window_seconds = 300, history = [(0, 50)]\<rparr>"
  have on: "show_inactive_unavailable ?cfg"
    by (simp add: show_inactive_unavailable_def dict_get_def)
  have found: "get_channel ?co (channel_number ?s) = Some ?ch"
    by (simp add: get_channel_def data_channels_def)
  have sentinel: "ch_temp ?ch = Some 999"
    by simp
  from sentinel_not_buffered [OF on found sentinel] on show ?thesis
    by blast
qed

text \<open>
  With the option off, the sentinel reading of an available channel is appended.
\<close>

theorem sentinel_buffered_when_option_off:
  "history (snd (native_value
     \<lparr>last_update_success = True,
      co_data = Some \<lparr>channels = [\<lparr>ch_number = 1, ch_temp = Some 999, ch_max = Some 70\<rparr>],
                       pitmasters = [], system = Some \<lparr>sys_online = 2\<rparr>\<rparr>\<rparr>
     \<lparr>cfg_options = [''show_inactive_unavailable'' \<mapsto> False], cfg_data = Map.empty\<rparr>
     300
     \<lparr>channel_number = 1, window_seconds = 300, history = [(0, 50)]\<rparr>))
   = [(0, 50), (300, 999)]"
  by (simp add: native_value_def get_channel_def data_channels_def available_def
      data_system_def show_inactive_unavailable_def dict_get_def deque_append_def
      recent_samples_def round2_def Let_def)

text \<open>
  C6. Whenever the forecast gets as far as the earliest and the latest sample of the
  window and the elapsed time \<open>dt\<close> is not positive or the temperature change (hence the
  rate) is not positive, it reports 0; and whatever the input, a reported time-left is
  never negative.
\<close>

theorem time_left_zero_and_never_negative:
  "(fst (native_value co cfg now s) = Some v \<longrightarrow> 0 \<le> v) \<and>
   (available co cfg s \<and> get_channel co (channel_number s) = Some channel \<and>
    ch_temp channel = Some temp \<and>
    recent = recent_samples (deque_append (history s) (now, temp)) (now - window_seconds s) \<and>
    2 \<le> length recent \<and>
    (fst (last recent) - fst (hd recent) \<le> 0 \<or> snd (last recent) - snd (hd recent) \<le> 0)
    \<longrightarrow> fst (native_value co cfg now s) = Some 0)"
proof (intro conjI impI)
  assume "fst (native_value co cfg now s) = Some v"
  then show "0 \<le> v"
    by (auto simp: native_value_def Let_def round2_nonneg split: option.splits if_splits)
next
  assume "available co cfg s \<and> get_channel co (channel_number s) = Some channel \<and>
    ch_temp channel = Some temp \<and>
    recent = recent_samples (deque_append (history s) (now, temp)) (now - window_seconds s) \<and>
    2 \<le> length recent \<and>
    (fst (last recent) - fst (hd recent) \<le> 0 \<or> snd (last recent) - snd (hd recent) \<le> 0)"
  then show "fst (native_value co cfg now s) = Some 0"
    by (auto simp: native_value_def Let_def)
qed

theorem time_left_zero_and_never_negative_witness:
  "fst (native_value
     \<lparr>last_update_success = True,
      co_data = Some \<lparr>channels = [\<lparr>ch_number = 1, ch_temp = Some 60, ch_max = Some 70\<rparr>],
                       pitmasters = [], system = Some \<lparr>sys_online = 2\<rparr>\<rparr>\<rparr>
     \<lparr>cfg_options = Map.empty, cfg_data = Map.empty\<rparr>
     300
     \<lparr>channel_number = 1, window_seconds = 300, history = [(0, 50)]\<rparr>) = Some 5 \<and>
   (0::rat) \<le> 5 \<and>
   fst (native_value
     \<lparr>last_update_success = True,
      co_data = Some \<lparr>channels = [\<lparr>ch_number = 1, ch_temp = Some 60, ch_max = Some 70\<rparr>],
                       pitmasters = [], system = Some \<lparr>sys_online = 2\<rparr>\<rparr>\<rparr>
     \<lparr>cfg_options = Map.empty, cfg_data = Map.empty\<rparr>
     300
     \<lparr>channel_number = 1, window_seconds = 300, history = [(0, 65)]\<rparr>) = Some 0"
proof -
  let ?cfg = "\<lparr>cfg_options = Map.empty, cfg_data = Map.empty\<rparr>"
  let ?ch = "\<lparr>ch_number = 1, ch_temp = Some 60, ch_max = Some 70\<rparr>"
  let ?co = "\<lparr>last_update_success = True,
      co_data = Some \<lparr>channels = [?ch], pitmasters = [], system = Some \<lparr>sys_online = 2\<rparr>\<rparr>\<rparr>"
  let ?warming = "\<lparr>channel_number = 1, window_seconds = 300, history = [(0, 50)]\<rparr>"
  let ?cooling = "\<lparr>channel_number = 1, window_seconds = 300, history = [(0, 65)]\<rparr>"
  have five: "fst (native_value ?co ?cfg 300 ?warming) = Some 5"
    by (simp add: native_value_def get_channel_def data_channels_def available_def
      data_system_def show_inactive_unavailable_def dict_get_def deque_append_def
      recent_samples_def round2_def Let_def)
  have reached: "available ?co ?cfg ?cooling \<and>
    get_channel ?co (channel_number ?cooling) = Some ?ch \<and>
    ch_temp ?ch = Some 60 \<and>
    [(0, 65), (300, 60)] =
      recent_samples (deque_append (history ?cooling) (300, 60)) (300 - window_seconds ?cooling) \<and>
    2 \<le> length [(0::rat, 65::rat), (300, 60)] \<and>
    (fst (last [(0::rat, 65::rat), (300, 60)]) - fst (hd [(0::rat, 65::rat), (300, 60)]) \<le> 0 \<or>
     snd (last [(0::rat, 65::rat), (300, 60)]) - snd (hd [(0::rat, 65::rat), (300, 60)]) \<le> 0)"
    by (simp add: get_channel_def data_channels_def available_def data_system_def
      show_inactive_unavailable_def dict_get_def deque_append_def recent_samples_def)
  from time_left_zero_and_never_negative [where co = ?co and cfg = ?cfg and now = 300
      and s = ?warming and v = 5] five
  have nonneg: "(0::rat) \<le> 5"
    by blast
  from time_left_zero_and_never_negative [where co = ?co and cfg = ?cfg and now = 300
      and s = ?cooling and channel = ?ch and temp = 60
      and recent = "[(0, 65), (300, 60)]"] reached
  have zero: "fst (native_value ?co ?cfg 300 ?cooling) = Some 0"
    by blast
  from five nonneg zero show ?thesis
    by blast
qed

text \<open>
  C8. If fewer than two samples of the channel's history lie within the trailing window
  at evaluation time, the forecast is unknown (\<open>None\<close>), neither zero nor an error.
\<close>

theorem fewer_than_two_samples_unknown:
  assumes "native_value co cfg now s = (v, s')"
    and "length (recent_samples (history s') (now - window_seconds s)) < 2"
  shows "v = None"
  using assms
  by (auto simp: native_value_def Let_def split: option.splits if_splits)

theorem fewer_than_two_samples_unknown_witness:
  "native_value
     \<lparr>last_update_success = True,
      co_data = Some \<lparr>channels = [\<lparr>ch_number = 1, ch_temp = Some 60, ch_max = Some 70\<rparr>],
                       pitmasters = [], system = Some \<lparr>sys_online = 2\<rparr>\<rparr>\<rparr>
     \<lparr>cfg_options = Map.empty, cfg_data = Map.empty\<rparr>
     1000
     \<lparr>channel_number = 1, window_seconds = 300, history = [(0, 50)]\<rparr>
   = (None, \<lparr>channel_number = 1, window_seconds = 300, history = [(0, 50), (1000, 60)]\<rparr>) \<and>
   length (recent_samples [(0, 50), (1000, 60)] (1000 - 300)) < 2"
proof -
  let ?cfg = "\<lparr>cfg_options = Map.empty, cfg_data = Map.empty\<rparr>"
  let ?co = "\<lparr>last_update_success = True,
      co_data = Some \<lparr>channels = [\<lparr>ch_number = 1, ch_temp = Some 60, ch_max = Some 70\<rparr>],
                       pitmasters = [], system = Some \<lparr>sys_online = 2\<rparr>\<rparr>\<rparr>"
  let ?s = "\<lparr>channel_number = 1, window_seconds = 300, history = [(0, 50)]\<rparr>"
  let ?s' = "\<lparr>channel_number = 1, window_seconds = 300, history = [(0, 50), (1000, 60)]\<rparr>"
  obtain v where run: "native_value ?co ?cfg 1000 ?s = (v, ?s')"
    by (simp add: native_value_def get_channel_def data_channels_def available_def
      data_system_def show_inactive_unavailable_def dict_get_def deque_append_def
      recent_samples_def Let_def)
  have few: "length (recent_samples (history ?s') (1000 - window_seconds ?s)) < 2"
    by (simp add: recent_samples_def)
  from fewer_than_two_samples_unknown [OF run few] run few show ?thesis
    by simp
qed

subsection \<open>The pitmaster temperature sensor\<close>

text \<open>
  C9. When the pitmaster's channel exists and its temperature is the sentinel 999.0,
  the evaluation of the pitmaster temperature reaches the name \<open>show_inactive\<close>, which
  is bound nowhere, and raises NameError; for every other temperature the condition is
  decided by its left operand and the temperature is returned.
\<close>

theorem pitmaster_temperature_name_error:
  "(pm_get_channel co pitmaster_id = Some channel \<and> ch_temp channel = Some 999
      \<longrightarrow> pm_native_value co pitmaster_id = Inl NameError) \<and>
   (pm_get_channel co pitmaster_id = Some channel \<and> ch_temp channel \<noteq> Some 999
      \<longrightarrow> pm_native_value co pitmaster_id = Inr (ch_temp channel))"
  by (simp add: pm_native_value_def load_global_def sensor_globals_def)

theorem pitmaster_temperature_name_error_witness:
  "pm_native_value
     \<lparr>last_update_success = True,
      co_data = Some \<lparr>channels = [\<lparr>ch_number = 1, ch_temp = Some 999, ch_max = Some 70\<rparr>],
                       pitmasters = [\<lparr>pm_id = 0, pm_channel = Some 1\<rparr>],
                       system = Some \<lparr>sys_online = 2\<rparr>\<rparr>\<rparr> 0 = Inl NameError \<and>
   pm_native_value
     \<lparr>last_update_success = True,
      co_data = Some \<lparr>channels = [\<lparr>ch_number = 1, ch_temp = Some 85, ch_max = Some 70\<rparr>],
                       pitmasters = [\<lparr>pm_id = 0, pm_channel = Some 1\<rparr>],
                       system = Some \<lparr>sys_online = 2\<rparr>\<rparr>\<rparr> 0 = Inr (Some 85)"
proof -
  let ?off = "\<lparr>ch_number = 1, ch_temp = Some 999, ch_max = Some 70\<rparr>"
  let ?hot = "\<lparr>ch_number = 1, ch_temp = Some 85, ch_max = Some 70\<rparr>"
  let ?co1 = "\<lparr>last_update_success = True,
      co_data = Some \<lparr>channels = [?off], pitmasters = [\<lparr>pm_id = 0, pm_channel = Some 1\<rparr>],
                       system = Some \<lparr>sys_online = 2\<rparr>\<rparr>\<rparr>"
  let ?co2 = "\<lparr>last_update_success = True,
      co_data = Some \<lparr>channels = [?hot], pitmasters = [\<lparr>pm_id = 0, pm_channel = Some 1\<rparr>],
                       system = Some \<lparr>sys_online = 2\<rparr>\<rparr>\<rparr>"
  have a: "pm_get_channel ?co1 0 = Some ?off \<and> ch_temp ?off = Some 999"
    by (simp add: pm_get_channel_def data_pitmasters_def data_channels_def)
  have b: "pm_get_channel ?co2 0 = Some ?hot \<and> ch_temp ?hot \<noteq> Some 999"
    by (simp add: pm_get_channel_def data_pitmasters_def data_channels_def)
  from pitmaster_temperature_name_error [where co = ?co1 and pitmaster_id = 0 and channel = ?off] a
  have raised: "pm_native_value ?co1 0 = Inl NameError"
    by blast
  from pitmaster_temperature_name_error [where co = ?co2 and pitmaster_id = 0 and channel = ?hot] b
  have returned: "pm_native_value ?co2 0 = Inr (ch_temp ?hot)"
    by blast
  from raised returned show ?thesis
    by simp
qed

subsection \<open>The debounced buttons\<close>

text \<open>
  C7 (as amended). For each debounced button (Telegram test, Pushover test, cloud token
  rotation): when a press passes the check, a second press strictly less than 5 time units
  after it is a silent no-op: it raises nothing, has no effect and leaves the button as
  it was. So the pair issues exactly the one device request of the first press, when
  that press got as far as its request (for the two test buttons, when the push
  settings were there to read).
\<close>

theorem debounce_second_press_noop:
  assumes "DEBOUNCE_SECONDS \<le> t1 - last_press b"
    and "t2 - t1 < DEBOUNCE_SECONDS"
  shows
    "(telegram_async_press tg1 t1 b = (r1, b1, e1) \<and>
      telegram_async_press tg2 t2 b1 = (r2, b2, e2)
      \<longrightarrow> r2 = Inr () \<and> b2 = b1 \<and> e2 = [] \<and>
          (tg1 \<noteq> None \<longrightarrow> length (device_requests (e1 @ e2)) = 1)) \<and>
     (pushover_async_press po1 t1 b = (r1, b1, e1) \<and>
      pushover_async_press po2 t2 b1 = (r2, b2, e2)
      \<longrightarrow> r2 = Inr () \<and> b2 = b1 \<and> e2 = [] \<and>
          (po1 \<noteq> None \<longrightarrow> length (device_requests (e1 @ e2)) = 1)) \<and>
     (newtoken_async_press reply1 iot1 t1 b = (r1, b1, e1) \<and>
      newtoken_async_press reply2 iot2 t2 b1 = (r2, b2, e2)
      \<longrightarrow> r2 = Inr () \<and> b2 = b1 \<and> e2 = [] \<and>
          length (device_requests (e1 @ e2)) = 1)"
proof -
  from assms have telegram:
    "telegram_async_press tg1 t1 b = (r1, b1, e1) \<and>
      telegram_async_press tg2 t2 b1 = (r2, b2, e2)
      \<longrightarrow> r2 = Inr () \<and> b2 = b1 \<and> e2 = [] \<and>
          (tg1 \<noteq> None \<longrightarrow> length (device_requests (e1 @ e2)) = 1)"
    by (auto simp: telegram_async_press_def device_requests_def Let_def
        split: option.splits if_splits)
  from assms have pushover:
    "pushover_async_press po1 t1 b = (r1, b1, e1) \<and>
      pushover_async_press po2 t2 b1 = (r2, b2, e2)
      \<longrightarrow> r2 = Inr () \<and> b2 = b1 \<and> e2 = [] \<and>
          (po1 \<noteq> None \<longrightarrow> length (device_requests (e1 @ e2)) = 1)"
    by (auto simp: pushover_async_press_def device_requests_def Let_def
        split: option.splits if_splits)
  from assms have newtoken:
    "newtoken_async_press reply1 iot1 t1 b = (r1, b1, e1) \<and>
      newtoken_async_press reply2 iot2 t2 b1 = (r2, b2, e2)
      \<longrightarrow> r2 = Inr () \<and> b2 = b1 \<and> e2 = [] \<and>
          length (device_requests (e1 @ e2)) = 1"
    by (auto simp: newtoken_async_press_def device_requests_def Let_def
        split: request_reply.splits if_splits)
  from telegram pushover newtoken show ?thesis
    by (intro conjI)
qed

theorem debounce_second_press_noop_witness:
  "DEBOUNCE_SECONDS \<le> 10 - last_press new_button \<and> (12::rat) - 10 < DEBOUNCE_SECONDS \<and>
   telegram_async_press (Some (JDict [])) 10 new_button =
     (Inr (), \<lparr>last_press = 10\<rparr>,
      [DeviceRequest ''POST'' ''/setpush''
         (Some (JDict [(''test'', JBool True), (''telegram'', JDict [])]))]) \<and>
   telegram_async_press (Some (JDict [])) 12 \<lparr>last_press = 10\<rparr> =
     (Inr (), \<lparr>last_press = 10\<rparr>, []) \<and>
   pushover_async_press (Some (JDict [])) 12 \<lparr>last_press = 10\<rparr> =
     (Inr (), \<lparr>last_press = 10\<rparr>, []) \<and>
   newtoken_async_press (RequestReply 200 ''abc'') True 12 \<lparr>last_press = 10\<rparr> =
     (Inr (), \<lparr>last_press = 10\<rparr>, [])"
proof -
  let ?b1 = "\<lparr>last_press = 10\<rparr>"
  let ?tg = "Some (JDict [])"
  let ?e1 = "[DeviceRequest ''POST'' ''/setpush''
         (Some (JDict [(''test'', JBool True), (''telegram'', JDict [])]))]"
  let ?e1' = "[DeviceRequest ''POST'' ''/setpush''
         (Some (JDict [(''test'', JBool True), (''pushover'', JDict [])]))]"
  let ?e1'' = "[DeviceRequest ''POST'' ''/newtoken'' None, SetCLtoken ''abc'', RequestRefresh]"
  have passed: "DEBOUNCE_SECONDS \<le> 10 - last_press new_button"
    by (simp add: DEBOUNCE_SECONDS_def new_button_def)
  have close: "(12::rat) - 10 < DEBOUNCE_SECONDS"
    by (simp add: DEBOUNCE_SECONDS_def)
  have tg1: "telegram_async_press ?tg 10 new_button = (Inr (), ?b1, ?e1)"
    by (simp add: telegram_async_press_def DEBOUNCE_SECONDS_def new_button_def)
  have po1: "pushover_async_press ?tg 10 new_button = (Inr (), ?b1, ?e1')"
    by (simp add: pushover_async_press_def DEBOUNCE_SECONDS_def new_button_def)
  have nt1: "newtoken_async_press (RequestReply 200 ''abc'') True 10 new_button
      = (Inr (), ?b1, ?e1'')"
    by (simp add: newtoken_async_press_def DEBOUNCE_SECONDS_def new_button_def str_strip_def
        isspace_def)
  obtain r2 b2 e2 where tg2: "telegram_async_press ?tg 12 ?b1 = (r2, b2, e2)"
    by (cases "telegram_async_press ?tg 12 ?b1") blast
  obtain r3 b3 e3 where po2: "pushover_async_press ?tg 12 ?b1 = (r3, b3, e3)"
    by (cases "pushover_async_press ?tg 12 ?b1") blast
  obtain r4 b4 e4 where nt2:
    "newtoken_async_press (RequestReply 200 ''abc'') True 12 ?b1 = (r4, b4, e4)"
    by (cases "newtoken_async_press (RequestReply 200 ''abc'') True 12 ?b1") blast
  from debounce_second_press_noop [OF passed close, where ?tg1.0 = ?tg and ?tg2.0 = ?tg
      and ?r1.0 = "Inr ()" and ?b1.0 = ?b1 and ?e1.0 = ?e1 and ?r2.0 = r2 and ?b2.0 = b2
      and ?e2.0 = e2] tg1 tg2
  have a: "telegram_async_press ?tg 12 ?b1 = (Inr (), ?b1, [])"
    by simp
  from debounce_second_press_noop [OF passed close, where ?po1.0 = ?tg and ?po2.0 = ?tg
      and ?r1.0 = "Inr ()" and ?b1.0 = ?b1 and ?e1.0 = ?e1' and ?r2.0 = r3 and ?b2.0 = b3
      and ?e2.0 = e3] po1 po2
  have b: "pushover_async_press ?tg 12 ?b1 = (Inr (), ?b1, [])"
    by simp
  from debounce_second_press_noop [OF passed close,
      where ?reply1.0 = "RequestReply 200 ''abc''" and ?iot1.0 = True
      and ?reply2.0 = "RequestReply 200 ''abc''" and ?iot2.0 = True
      and ?r1.0 = "Inr ()" and ?b1.0 = ?b1 and ?e1.0 = ?e1'' and ?r2.0 = r4 and ?b2.0 = b4
      and ?e2.0 = e4] nt1 nt2
  have c: "newtoken_async_press (RequestReply 200 ''abc'') True 12 ?b1 = (Inr (), ?b1, [])"
    by simp
  from passed close tg1 a b c show ?thesis
    by simp
qed

text \<open>
  Measured from the prior press as such, the rule fails: a button pressed at 10, at 14
  and at 16 ignores the press at 14, and the press at 16, two time units later, sends
  its request.
\<close>

theorem debounce_counts_from_last_passing_press:
  "telegram_async_press (Some (JDict [])) 10 new_button =
     (Inr (), \<lparr>last_press = 10\<rparr>,
      [DeviceRequest ''POST'' ''/setpush''
         (Some (JDict [(''test'', JBool True), (''telegram'', JDict [])]))]) \<and>
   telegram_async_press (Some (JDict [])) 14 \<lparr>last_press = 10\<rparr> =
     (Inr (), \<lparr>last_press = 10\<rparr>, []) \<and>
   (16::rat) - 14 < DEBOUNCE_SECONDS \<and>
   telegram_async_press (Some (JDict [])) 16 \<lparr>last_press = 10\<rparr> =
     (Inr (), \<lparr>last_press = 16\<rparr>,
      [DeviceRequest ''POST'' ''/setpush''
         (Some (JDict [(''test'', JBool True), (''telegram'', JDict [])]))])"
  by (simp add: telegram_async_press_def DEBOUNCE_SECONDS_def new_button_def)

subsection \<open>Bit-mask helpers\<close>

text \<open>
  C10. The bit-mask helpers satisfy the concrete equations
  \<open>set_bit(0, 3) = 8\<close>, \<open>clear_bit(8, 3) = 0\<close> and \<open>is_bit_set(8, 3) = true\<close>.
\<close>

theorem bit_helpers_examples:
  "set_bit_py 0 3 = Inr 8 \<and> clear_bit 8 3 = Inr 0 \<and> is_bit_set 8 3 = Inr True"
  by (simp add: set_bit_py_def clear_bit_def is_bit_set_def shl_one_def)

end
